theory Spec2Isabelle
  imports Main
begin

section \<open>Bytes and Python's byte-string operations\<close>

text \<open>
  A Python \<^verbatim>\<open>bytes\<close> value is a list of 8-bit characters. The control characters the
  bridge names are written with their codes.
\<close>

type_synonym bytes = string

definition CR :: char where "CR = CHR 0x0D"
definition LF :: char where "LF = CHR 0x0A"
definition ESC :: char where "ESC = CHR 0x1B"

definition CTRL_A :: bytes where "CTRL_A = [CHR 0x01]"
definition CTRL_B :: bytes where "CTRL_B = [CHR 0x02]"

definition MPREMOTE_SOFT_REBOOT :: bytes where
  "MPREMOTE_SOFT_REBOOT = ''soft reboot'' @ [CR, LF]"

definition MPREMOTE_RAW_REPL_SOFT_REBOOT :: bytes where
  "MPREMOTE_RAW_REPL_SOFT_REBOOT =
     ''OK'' @ [CR, LF] @ ''MPY: soft reboot'' @ [CR, LF] @
     ''raw REPL; CTRL-B to exit'' @ [CR, LF] @ ''>''"

definition RAW_REPL_PROMPT :: bytes where
  "RAW_REPL_PROMPT = ''raw REPL; CTRL-B to exit''"

definition MP_BRIDGE_READ_BUFFER_SIZE :: int where
  "MP_BRIDGE_READ_BUFFER_SIZE = 4096"

text \<open>
  Timeouts are the source's constants in milliseconds: \<^verbatim>\<open>0.01\<close> s is 10, \<^verbatim>\<open>0.05\<close> s is 50,
  \<^verbatim>\<open>0.1\<close> s is 100, \<^verbatim>\<open>0.001\<close> s is 1.
\<close>

definition MP_BRIDGE_READ_TIMEOUT :: nat where
  "MP_BRIDGE_READ_TIMEOUT = 10"

definition MP_BRIDGE_BANNER_READ_TIMEOUT :: nat where
  "MP_BRIDGE_BANNER_READ_TIMEOUT = 50"

definition MP_BRIDGE_DRAIN_TIMEOUT :: nat where
  "MP_BRIDGE_DRAIN_TIMEOUT = 50"

text \<open>\<^verbatim>\<open>pat in data\<close> on bytes: \<^verbatim>\<open>pat\<close> occurs as a contiguous run of \<^verbatim>\<open>data\<close>.\<close>

definition startswith :: "bytes \<Rightarrow> bytes \<Rightarrow> bool" where
  "startswith xs pat = (take (length pat) xs = pat)"

fun bytes_in :: "bytes \<Rightarrow> bytes \<Rightarrow> bool" where
  "bytes_in pat [] = (pat = [])"
| "bytes_in pat (x # xs) = (startswith (x # xs) pat \<or> bytes_in pat xs)"

definition endswith :: "bytes \<Rightarrow> bytes \<Rightarrow> bool" where
  "endswith xs suf =
     (length suf \<le> length xs \<and> drop (length xs - length suf) xs = suf)"

text \<open>\<^verbatim>\<open>bytes.rstrip()\<close> removes trailing ASCII whitespace: space, TAB, LF, VT, FF, CR.\<close>

definition is_ascii_space :: "char \<Rightarrow> bool" where
  "is_ascii_space c =
     (c = CHR 0x20 \<or> c = CHR 0x09 \<or> c = CHR 0x0A \<or> c = CHR 0x0B \<or> c = CHR 0x0C \<or> c = CHR 0x0D)"

definition rstrip :: "bytes \<Rightarrow> bytes" where
  "rstrip xs = rev (dropWhile is_ascii_space (rev xs))"

text \<open>
  Python's slices \<^verbatim>\<open>b[:n]\<close> and \<^verbatim>\<open>b[n:]\<close>: a negative \<^verbatim>\<open>n\<close> counts from the end and is
  clipped at the start of the value.
\<close>

definition slice_to :: "int \<Rightarrow> bytes \<Rightarrow> bytes" where
  "slice_to n xs = (if 0 \<le> n then take (nat n) xs else take (nat (int (length xs) + n)) xs)"

definition slice_from :: "int \<Rightarrow> bytes \<Rightarrow> bytes" where
  "slice_from n xs = (if 0 \<le> n then drop (nat n) xs else drop (nat (int (length xs) + n)) xs)"

section \<open>The PTY process behind the \<^verbatim>\<open>BasePTYProcess\<close> interface\<close>

text \<open>
  A call into the child's PTY either returns a value or raises. The callers in
  \<^verbatim>\<open>VirtualSerialPort\<close> and \<^verbatim>\<open>BaseRedirector\<close> wrap these calls in \<^verbatim>\<open>try\<close>/\<^verbatim>\<open>except Exception\<close>,
  so both outcomes are part of the interface they program against.
\<close>

datatype 'a outcome = Returns 'a | Raises

text \<open>
  The child is described by what its next calls will answer: \<open>reads\<close> holds the results of
  the coming \<^verbatim>\<open>read\<close> calls in order (an exhausted script reads as no data), \<open>writes\<close>
  the results of the coming \<^verbatim>\<open>write\<close> calls (an exhausted script accepts all bytes), and
  \<open>poll_status\<close> what \<^verbatim>\<open>poll()\<close> returns. \<open>read_log\<close> and \<open>written\<close> record the calls made:
  the \<^verbatim>\<open>(size, timeout)\<close> of every read and the bytes of every write.
\<close>

record pty_process =
  reads :: "bytes outcome list"
  writes :: "int outcome list"
  poll_status :: "int option"
  read_log :: "(int \<times> nat) list"
  written :: "bytes list"

definition pty_read :: "int \<Rightarrow> nat \<Rightarrow> pty_process \<Rightarrow> bytes outcome \<times> pty_process" where
  "pty_read sz tmo p =
     (case reads p of
        [] \<Rightarrow> (Returns [], p\<lparr>read_log := read_log p @ [(sz, tmo)]\<rparr>)
      | x # xs \<Rightarrow> (x, p\<lparr>reads := xs, read_log := read_log p @ [(sz, tmo)]\<rparr>))"

definition pty_write :: "bytes \<Rightarrow> pty_process \<Rightarrow> int outcome \<times> pty_process" where
  "pty_write data p =
     (case writes p of
        [] \<Rightarrow> (Returns (int (length data)), p\<lparr>written := written p @ [data]\<rparr>)
      | x # xs \<Rightarrow> (x, p\<lparr>writes := xs, written := written p @ [data]\<rparr>))"

definition is_alive :: "pty_process \<Rightarrow> bool" where
  "is_alive p = (poll_status p = None)"

section \<open>\<^verbatim>\<open>VirtualSerialPort\<close>\<close>

text \<open>
  \<open>restart_callback\<close> is \<^verbatim>\<open>None\<close> or a callable; the callable is described by the result of
  its next call: a new PTY process, \<^verbatim>\<open>None\<close>, or an exception.
\<close>

record VirtualSerialPort =
  pty_process :: pty_process
  timeout :: nat
  in_waiting :: nat
  restart_callback :: "pty_process option outcome option"
  in_raw_repl :: bool
  pending_reboot_output :: bytes
  closed :: bool

definition has_process_exited :: "VirtualSerialPort \<Rightarrow> bool" where
  "has_process_exited s = (\<not> is_alive (pty_process s))"

definition can_restart :: "VirtualSerialPort \<Rightarrow> bool" where
  "can_restart s = (restart_callback s \<noteq> None)"

definition update_raw_repl_state_from_response :: "bytes \<Rightarrow> VirtualSerialPort \<Rightarrow> VirtualSerialPort" where
  "update_raw_repl_state_from_response data s =
     (if bytes_in RAW_REPL_PROMPT data then s\<lparr>in_raw_repl := True\<rparr>
      else if bytes_in ''>>>'' data \<and> in_raw_repl s then s\<lparr>in_raw_repl := False\<rparr>
      else s)"

definition VirtualSerialPort_read :: "int \<Rightarrow> VirtualSerialPort \<Rightarrow> bytes \<times> VirtualSerialPort" where
  "VirtualSerialPort_read sz s =
     (if pending_reboot_output s \<noteq> [] then
        (slice_to sz (pending_reboot_output s),
         s\<lparr>pending_reboot_output := slice_from sz (pending_reboot_output s)\<rparr>)
      else if closed s then ([], s)
      else
        (case pty_read sz (timeout s) (pty_process s) of
           (Returns data, p) \<Rightarrow>
             (data,
              if data \<noteq> [] then update_raw_repl_state_from_response data (s\<lparr>pty_process := p\<rparr>)
              else s\<lparr>pty_process := p\<rparr>)
         | (Raises, p) \<Rightarrow> ([], s\<lparr>pty_process := p, closed := True\<rparr>)))"

definition VirtualSerialPort_write :: "bytes \<Rightarrow> VirtualSerialPort \<Rightarrow> int \<times> VirtualSerialPort" where
  "VirtualSerialPort_write data s =
     (if closed s then (0, s)
      else
        let s1 = (if bytes_in CTRL_A data then s\<lparr>in_raw_repl := True\<rparr>
                  else if bytes_in CTRL_B data then s\<lparr>in_raw_repl := False\<rparr>
                  else s)
        in (case pty_write data (pty_process s1) of
              (Returns n, p) \<Rightarrow> (n, s1\<lparr>pty_process := p\<rparr>)
            | (Raises, p) \<Rightarrow> (0, s1\<lparr>pty_process := p, closed := True\<rparr>)))"

definition update_in_waiting :: "VirtualSerialPort \<Rightarrow> VirtualSerialPort" where
  "update_in_waiting s =
     (if closed s then s\<lparr>in_waiting := 0\<rparr>
      else
        (case pty_read 1 1 (pty_process s) of
           (Returns data, p) \<Rightarrow>
             (if data \<noteq> [] then
                s\<lparr>pty_process := p,
                  pending_reboot_output := data @ pending_reboot_output s,
                  in_waiting := 1\<rparr>
              else s\<lparr>pty_process := p, in_waiting := 0\<rparr>)
         | (Raises, p) \<Rightarrow> s\<lparr>pty_process := p, closed := True, in_waiting := 0\<rparr>))"

definition do_restart :: "VirtualSerialPort \<Rightarrow> (bool \<times> VirtualSerialPort) outcome" where
  "do_restart s =
     (case restart_callback s of
        None \<Rightarrow> Returns (False, s)
      | Some Raises \<Rightarrow> Raises
      | Some (Returns None) \<Rightarrow> Returns (False, s)
      | Some (Returns (Some p)) \<Rightarrow>
          Returns (True, s\<lparr>pty_process := p, in_raw_repl := False, closed := False\<rparr>))"

definition reset_for_new_connection :: "VirtualSerialPort \<Rightarrow> VirtualSerialPort" where
  "reset_for_new_connection s = s\<lparr>in_raw_repl := False, pending_reboot_output := []\<rparr>"

definition VirtualSerialPort_init ::
  "pty_process \<Rightarrow> nat \<Rightarrow> pty_process option outcome option \<Rightarrow> VirtualSerialPort" where
  "VirtualSerialPort_init p tmo cb =
     \<lparr>pty_process = p, timeout = tmo, in_waiting = 0, restart_callback = cb,
      in_raw_repl = False, pending_reboot_output = [], closed = False\<rparr>"

text \<open>
  \<^verbatim>\<open>main\<close> builds the one virtual serial port of the bridge with \<^verbatim>\<open>timeout=0.1\<close> and the
  process manager's \<^verbatim>\<open>restart\<close> as callback.
\<close>

definition main_virtual_serial :: "pty_process \<Rightarrow> pty_process option outcome \<Rightarrow> VirtualSerialPort" where
  "main_virtual_serial p restart = VirtualSerialPort_init p 100 (Some restart)"

section \<open>\<^verbatim>\<open>WindowsPTYProcess\<close>\<close>

text \<open>
  The pywinpty handle: what \<^verbatim>\<open>isalive()\<close> and \<^verbatim>\<open>get_exitstatus()\<close> answer, and the results of
  the coming \<^verbatim>\<open>read(blocking=False)\<close> calls, each already encoded to UTF-8 (\<open>Raises\<close> when the
  read or the encoding raises; an exhausted script reads as the empty string).
  \<open>write_results\<close> holds the results of the coming \<^verbatim>\<open>write\<close> calls on the handle (\<open>Raises\<close> when
  the decoding or the write raises; an exhausted script accepts all bytes).
\<close>

record WinPTY =
  isalive :: "bool outcome"
  get_exitstatus :: "int option outcome"
  read_results :: "bytes outcome list"
  write_results :: "int outcome list"

record WindowsPTYProcess =
  w_closed :: bool
  w_pty :: WinPTY

definition WinPTY_read :: "WinPTY \<Rightarrow> bytes outcome \<times> WinPTY" where
  "WinPTY_read h =
     (case read_results h of [] \<Rightarrow> (Returns [], h) | x # xs \<Rightarrow> (x, h\<lparr>read_results := xs\<rparr>))"

definition WindowsPTYProcess_poll :: "WindowsPTYProcess \<Rightarrow> int option" where
  "WindowsPTYProcess_poll w =
     (if w_closed w then Some 0
      else
        (case isalive (w_pty w) of
           Raises \<Rightarrow> Some 0
         | Returns True \<Rightarrow> None
         | Returns False \<Rightarrow>
             (case get_exitstatus (w_pty w) of
                Raises \<Rightarrow> Some 0
              | Returns exit_status \<Rightarrow> exit_status)))"

definition WindowsPTYProcess_is_alive :: "WindowsPTYProcess \<Rightarrow> bool" where
  "WindowsPTYProcess_is_alive w = (WindowsPTYProcess_poll w = None)"

text \<open>
  \<^verbatim>\<open>result.replace(b"\r\r\n", b"\r\n")\<close>: Python replaces the occurrences found from left to
  right, each search starting after the previous occurrence.
\<close>

fun normalize_crlf :: "bytes \<Rightarrow> bytes" where
  "normalize_crlf (a # b # c # rest) =
     (if a = CR \<and> b = CR \<and> c = LF then CR # LF # normalize_crlf rest
      else a # normalize_crlf (b # c # rest))"
| "normalize_crlf xs = xs"

text \<open>
  The pattern \<^verbatim>\<open>\x1b\[[0-9;?]*[a-zA-Z]\<close>. The parameter class and the letter class are
  disjoint, so the greedy star never has to give a character back: a match at the start of
  \<open>xs\<close> is ESC, \<^verbatim>\<open>[\<close>, the longest run of parameter bytes, and a letter. \<open>csi_rest\<close> returns
  what follows such a match.
\<close>

definition is_csi_param :: "char \<Rightarrow> bool" where
  "is_csi_param c =
     (let n = (of_char c :: nat) in (48 \<le> n \<and> n \<le> 57) \<or> c = CHR '';'' \<or> c = CHR ''?'')"

definition is_ascii_letter :: "char \<Rightarrow> bool" where
  "is_ascii_letter c =
     (let n = (of_char c :: nat) in (97 \<le> n \<and> n \<le> 122) \<or> (65 \<le> n \<and> n \<le> 90))"

definition csi_rest :: "bytes \<Rightarrow> bytes option" where
  "csi_rest xs =
     (case xs of
        e # b # ys \<Rightarrow>
          (if e = ESC \<and> b = CHR ''['' then
             (case dropWhile is_csi_param ys of
                l # zs \<Rightarrow> if is_ascii_letter l then Some zs else None
              | [] \<Rightarrow> None)
           else None)
      | _ \<Rightarrow> None)"

lemma csi_rest_shorter: "csi_rest xs = Some rest \<Longrightarrow> length rest < length xs"
proof -
  assume h: "csi_rest xs = Some rest"
  then obtain e b ys where xs: "xs = e # b # ys"
    by (auto simp: csi_rest_def split: list.splits)
  from h xs obtain l where "dropWhile is_csi_param ys = l # rest"
    by (auto simp: csi_rest_def split: list.splits if_splits)
  then have "length (l # rest) \<le> length ys"
    by (metis length_dropWhile_le)
  with xs show ?thesis by simp
qed

text \<open>
  \<^verbatim>\<open>re.sub(pattern, b'', data)\<close>: scan from the left; where the pattern matches, drop the
  match and go on after it; elsewhere keep the byte and go on with the next one.
\<close>

function filter_escape_sequences :: "bytes \<Rightarrow> bytes" where
  "filter_escape_sequences [] = []"
| "filter_escape_sequences (x # xs) =
     (case csi_rest (x # xs) of
        Some rest \<Rightarrow> filter_escape_sequences rest
      | None \<Rightarrow> x # filter_escape_sequences xs)"
  by pat_completeness auto
termination
  by (relation "measure length") (auto dest: csi_rest_shorter)

text \<open>
  A whole match of the pattern, for stating what the filter deletes: ESC, \<^verbatim>\<open>[\<close>, parameter
  bytes, one letter.
\<close>

definition csi_sequence :: "bytes \<Rightarrow> bool" where
  "csi_sequence seq =
     (case seq of
        e # b # rest \<Rightarrow>
          e = ESC \<and> b = CHR ''['' \<and> rest \<noteq> []
          \<and> list_all is_csi_param (butlast rest) \<and> is_ascii_letter (last rest)
      | _ \<Rightarrow> False)"

definition windows_decode_chunk :: "bytes \<Rightarrow> bytes" where
  "windows_decode_chunk data = filter_escape_sequences (normalize_crlf data)"

text \<open>
  \<^verbatim>\<open>WindowsPTYProcess.read\<close> ignores \<^verbatim>\<open>size\<close>; it reads once, and once more after
  \<^verbatim>\<open>time.sleep(timeout)\<close> when the first read gave nothing.
\<close>

definition WindowsPTYProcess_read ::
  "int \<Rightarrow> nat \<Rightarrow> WindowsPTYProcess \<Rightarrow> bytes \<times> WindowsPTYProcess" where
  "WindowsPTYProcess_read sz tmo w =
     (if w_closed w then ([], w)
      else
        (case WinPTY_read (w_pty w) of
           (Raises, h) \<Rightarrow> ([], w\<lparr>w_pty := h\<rparr>)
         | (Returns data, h) \<Rightarrow>
             (if data \<noteq> [] then (windows_decode_chunk data, w\<lparr>w_pty := h\<rparr>)
              else
                (case WinPTY_read h of
                   (Raises, h') \<Rightarrow> ([], w\<lparr>w_pty := h'\<rparr>)
                 | (Returns data', h') \<Rightarrow>
                     (if data' \<noteq> [] then (windows_decode_chunk data', w\<lparr>w_pty := h'\<rparr>)
                      else ([], w\<lparr>w_pty := h'\<rparr>))))))"

text \<open>
  The order of the two steps as the testable property of the specification words it:
  the CSI filter first, the normalisation after it.
\<close>

definition spec_normalize_after_filter :: "bytes \<Rightarrow> bytes" where
  "spec_normalize_after_filter data = normalize_crlf (filter_escape_sequences data)"

text \<open>\<^verbatim>\<open>WindowsPTYProcess.write\<close>: an exception of the handle is logged and 0 is returned.\<close>

definition WindowsPTYProcess_write :: "bytes \<Rightarrow> WindowsPTYProcess \<Rightarrow> int \<times> WindowsPTYProcess" where
  "WindowsPTYProcess_write data w =
     (if w_closed w then (0, w)
      else
        (case write_results (w_pty w) of
           [] \<Rightarrow> (int (length data), w)
         | Returns n # rest \<Rightarrow> (n, w\<lparr>w_pty := (w_pty w)\<lparr>write_results := rest\<rparr>\<rparr>)
         | Raises # rest \<Rightarrow> (0, w\<lparr>w_pty := (w_pty w)\<lparr>write_results := rest\<rparr>\<rparr>)))"

section \<open>\<^verbatim>\<open>UnixPTYProcess\<close>\<close>

text \<open>
  \<open>os_reads\<close> holds the results of the coming \<^verbatim>\<open>select.select\<close> and \<^verbatim>\<open>os.read\<close> on the master
  descriptor: the bytes read, no bytes when the descriptor was not ready within the
  timeout, or \<open>Raises\<close> for an \<^verbatim>\<open>OSError\<close> or \<^verbatim>\<open>ValueError\<close>. \<open>os_writes\<close> does the same for
  \<^verbatim>\<open>os.write\<close>, and \<open>returncode\<close> is what \<^verbatim>\<open>Popen.poll()\<close> answers. An exhausted script reads
  as not ready and writes all bytes. The constructor always sets \<^verbatim>\<open>_process\<close>, so the test
  for \<^verbatim>\<open>None\<close> in \<^verbatim>\<open>poll\<close> never holds.
\<close>

record UnixPTYProcess =
  u_closed :: bool
  os_reads :: "bytes outcome list"
  os_writes :: "int outcome list"
  returncode :: "int option"

definition UnixPTYProcess_read :: "int \<Rightarrow> nat \<Rightarrow> UnixPTYProcess \<Rightarrow> bytes \<times> UnixPTYProcess" where
  "UnixPTYProcess_read sz tmo u =
     (if u_closed u then ([], u)
      else
        (case os_reads u of
           [] \<Rightarrow> ([], u)
         | Returns data # rest \<Rightarrow> (data, u\<lparr>os_reads := rest\<rparr>)
         | Raises # rest \<Rightarrow> ([], u\<lparr>u_closed := True, os_reads := rest\<rparr>)))"

definition UnixPTYProcess_write :: "bytes \<Rightarrow> UnixPTYProcess \<Rightarrow> int \<times> UnixPTYProcess" where
  "UnixPTYProcess_write data u =
     (if u_closed u then (0, u)
      else
        (case os_writes u of
           [] \<Rightarrow> (int (length data), u)
         | Returns n # rest \<Rightarrow> (n, u\<lparr>os_writes := rest\<rparr>)
         | Raises # rest \<Rightarrow> (0, u\<lparr>u_closed := True, os_writes := rest\<rparr>)))"

definition UnixPTYProcess_poll :: "UnixPTYProcess \<Rightarrow> int option" where
  "UnixPTYProcess_poll u = returncode u"

section \<open>The platform's \<^verbatim>\<open>PTYProcess\<close>\<close>

text \<open>
  \<^verbatim>\<open>PTYProcess\<close> is \<^verbatim>\<open>WindowsPTYProcess\<close> on Windows and \<^verbatim>\<open>UnixPTYProcess\<close> elsewhere, and
  \<^verbatim>\<open>MicroPythonProcessManager.create_process\<close>, which \<^verbatim>\<open>main\<close> installs as restart callback,
  returns \<^verbatim>\<open>PTYProcess(cmd, cwd)\<close>. Both classes catch what their handle raises: \<^verbatim>\<open>read\<close>
  and \<^verbatim>\<open>write\<close> return on every path.
\<close>

datatype PTYProcess = UnixPTY UnixPTYProcess | WindowsPTY WindowsPTYProcess

definition PTYProcess_read :: "int \<Rightarrow> nat \<Rightarrow> PTYProcess \<Rightarrow> bytes \<times> PTYProcess" where
  "PTYProcess_read sz tmo c =
     (case c of
        UnixPTY u \<Rightarrow> (case UnixPTYProcess_read sz tmo u of (data, u') \<Rightarrow> (data, UnixPTY u'))
      | WindowsPTY w \<Rightarrow>
          (case WindowsPTYProcess_read sz tmo w of (data, w') \<Rightarrow> (data, WindowsPTY w')))"

definition PTYProcess_write :: "bytes \<Rightarrow> PTYProcess \<Rightarrow> int \<times> PTYProcess" where
  "PTYProcess_write data c =
     (case c of
        UnixPTY u \<Rightarrow> (case UnixPTYProcess_write data u of (n, u') \<Rightarrow> (n, UnixPTY u'))
      | WindowsPTY w \<Rightarrow>
          (case WindowsPTYProcess_write data w of (n, w') \<Rightarrow> (n, WindowsPTY w')))"

definition PTYProcess_poll :: "PTYProcess \<Rightarrow> int option" where
  "PTYProcess_poll c =
     (case c of UnixPTY u \<Rightarrow> UnixPTYProcess_poll u | WindowsPTY w \<Rightarrow> WindowsPTYProcess_poll w)"

text \<open>
  What a platform PTY answers to a sequence of calls made on it, as the two scripts of the
  interface: the results of the reads in their order and the results of the writes in
  theirs.
\<close>

datatype pty_call = ReadCall int nat | WriteCall bytes

fun answers :: "pty_call list \<Rightarrow> PTYProcess \<Rightarrow> bytes outcome list \<times> int outcome list" where
  "answers [] c = ([], [])"
| "answers (ReadCall sz tmo # calls) c =
     (case PTYProcess_read sz tmo c of
        (data, c') \<Rightarrow> (case answers calls c' of (rs, ws) \<Rightarrow> (Returns data # rs, ws)))"
| "answers (WriteCall data # calls) c =
     (case PTYProcess_write data c of
        (n, c') \<Rightarrow> (case answers calls c' of (rs, ws) \<Rightarrow> (rs, Returns n # ws)))"

definition interface :: "pty_call list \<Rightarrow> PTYProcess \<Rightarrow> pty_process" where
  "interface calls c =
     \<lparr>reads = fst (answers calls c), writes = snd (answers calls c),
      poll_status = PTYProcess_poll c, read_log = [], written = []\<rparr>"

section \<open>\<^verbatim>\<open>BaseRedirector\<close>\<close>

text \<open>
  \<open>sent\<close> is what \<^verbatim>\<open>socket.sendall\<close> has delivered to the client, one entry per call.
  \<open>sendall_script\<close> holds the outcomes of the coming \<^verbatim>\<open>sendall\<close> calls: \<open>True\<close> delivers,
  \<open>False\<close> raises \<^verbatim>\<open>socket.error\<close>; an exhausted script delivers. \<open>frame_out\<close> is what the
  variant's \<^verbatim>\<open>_send_to_client\<close> does to the data before the socket write: nothing in
  \<^verbatim>\<open>SocketRedirector\<close>, the RFC 2217 codec's \<^verbatim>\<open>escape\<close> in \<^verbatim>\<open>Redirector\<close>.
\<close>

record redirector =
  serial :: VirtualSerialPort
  alive :: bool
  restarting :: bool
  sent :: "bytes list"
  sendall_script :: "bool list"
  frame_out :: "bytes \<Rightarrow> bytes"

definition write_to_socket :: "bytes \<Rightarrow> redirector \<Rightarrow> redirector" where
  "write_to_socket data r =
     (case sendall_script r of
        [] \<Rightarrow> r\<lparr>sent := sent r @ [data]\<rparr>
      | ok # rest \<Rightarrow>
          (if ok then r\<lparr>sent := sent r @ [data], sendall_script := rest\<rparr>
           else r\<lparr>alive := False, sendall_script := rest\<rparr>))"

definition send_to_client :: "bytes \<Rightarrow> redirector \<Rightarrow> redirector" where
  "send_to_client data r = write_to_socket (frame_out r data) r"

text \<open>
  \<^verbatim>\<open>_safe_send\<close> swallows \<^verbatim>\<open>socket.error\<close>; \<^verbatim>\<open>write_to_socket\<close> has already turned it into
  \<^verbatim>\<open>alive = False\<close>.
\<close>

definition safe_send :: "bytes \<Rightarrow> redirector \<Rightarrow> redirector" where
  "safe_send data r = send_to_client data r"

definition set_pty :: "pty_process \<Rightarrow> redirector \<Rightarrow> redirector" where
  "set_pty p r = r\<lparr>serial := (serial r)\<lparr>pty_process := p\<rparr>\<rparr>"

definition read_banner :: "redirector \<Rightarrow> bytes \<times> redirector" where
  "read_banner r =
     (case pty_read MP_BRIDGE_READ_BUFFER_SIZE MP_BRIDGE_BANNER_READ_TIMEOUT
             (pty_process (serial r)) of
        (Returns banner, p) \<Rightarrow> (banner, set_pty p r)
      | (Raises, p) \<Rightarrow> ([], set_pty p r))"

definition max_attempts :: nat where
  "max_attempts = 50"

definition max_empty_reads :: "bool \<Rightarrow> nat" where
  "max_empty_reads IS_WINDOWS = (if IS_WINDOWS then 10 else 5)"

definition prompt_seen :: "bytes \<Rightarrow> bool" where
  "prompt_seen accumulated =
     (bytes_in RAW_REPL_PROMPT accumulated \<and> endswith (rstrip accumulated) ''>'')"

text \<open>
  The drain loop of \<^verbatim>\<open>_reenter_raw_repl\<close>: \<^verbatim>\<open>for _ in range(max_attempts)\<close>, with the
  iterations still to run as first argument. The sleeps move no data and are left out.
\<close>

fun drain :: "nat \<Rightarrow> nat \<Rightarrow> bytes \<Rightarrow> nat \<Rightarrow> pty_process \<Rightarrow> bytes outcome \<times> pty_process" where
  "drain 0 m accumulated empty_reads p = (Returns accumulated, p)"
| "drain (Suc k) m accumulated empty_reads p =
     (case pty_read MP_BRIDGE_READ_BUFFER_SIZE MP_BRIDGE_DRAIN_TIMEOUT p of
        (Raises, p') \<Rightarrow> (Raises, p')
      | (Returns chunk, p') \<Rightarrow>
          (if chunk \<noteq> [] then
             (if prompt_seen (accumulated @ chunk) then (Returns (accumulated @ chunk), p')
              else drain k m (accumulated @ chunk) 0 p')
           else if empty_reads + 1 > m \<and> accumulated \<noteq> [] then (Returns accumulated, p')
           else if empty_reads + 1 > m * 2 then (Returns accumulated, p')
           else drain k m accumulated (empty_reads + 1) p'))"

definition set_in_raw_repl :: "bool \<Rightarrow> redirector \<Rightarrow> redirector" where
  "set_in_raw_repl b r = r\<lparr>serial := (serial r)\<lparr>in_raw_repl := b\<rparr>\<rparr>"

text \<open>The \<^verbatim>\<open>try\<close> block of \<^verbatim>\<open>_reenter_raw_repl\<close>: \<open>Raises\<close> when a PTY call in it raised.\<close>

definition reenter_raw_repl_try :: "bool \<Rightarrow> redirector \<Rightarrow> unit outcome \<times> redirector" where
  "reenter_raw_repl_try IS_WINDOWS r =
     (case pty_write CTRL_A (pty_process (serial r)) of
        (Raises, p) \<Rightarrow> (Raises, set_pty p r)
      | (Returns n, p) \<Rightarrow>
          (case drain max_attempts (max_empty_reads IS_WINDOWS) [] 0 p of
             (Raises, p') \<Rightarrow> (Raises, set_pty p' r)
           | (Returns accumulated, p') \<Rightarrow>
               (Returns (),
                set_in_raw_repl True (safe_send MPREMOTE_RAW_REPL_SOFT_REBOOT (set_pty p' r)))))"

text \<open>
  The first \<^verbatim>\<open>except Exception\<close> clause, lines 817 to 824 of the source. The second clause,
  lines 826 to 828, belongs to the same \<^verbatim>\<open>try\<close> and can never be chosen.
\<close>

definition reenter_raw_repl_except :: "redirector \<Rightarrow> redirector" where
  "reenter_raw_repl_except r =
     set_in_raw_repl True
       (safe_send MPREMOTE_RAW_REPL_SOFT_REBOOT (safe_send MPREMOTE_SOFT_REBOOT r))"

definition reenter_raw_repl :: "bool \<Rightarrow> redirector \<Rightarrow> redirector" where
  "reenter_raw_repl IS_WINDOWS r =
     (case reenter_raw_repl_try IS_WINDOWS r of
        (Returns u, r') \<Rightarrow> r'
      | (Raises, r') \<Rightarrow> reenter_raw_repl_except r')"

definition complete_restart :: "bool \<Rightarrow> bool \<Rightarrow> redirector \<Rightarrow> redirector" where
  "complete_restart IS_WINDOWS was_in_raw_repl r =
     (case read_banner r of
        (banner, r') \<Rightarrow>
          (if was_in_raw_repl then reenter_raw_repl IS_WINDOWS r'
           else if banner \<noteq> [] then safe_send banner r'
           else r'))"

text \<open>
  \<^verbatim>\<open>_handle_process_exit\<close>. The \<^verbatim>\<open>finally\<close> clause clears \<open>restarting\<close> on every path that
  set it; the \<^verbatim>\<open>except Exception\<close> clause is reached when the restart callback raises.
\<close>

definition handle_process_exit :: "bool \<Rightarrow> redirector \<Rightarrow> bool \<times> redirector" where
  "handle_process_exit IS_WINDOWS r =
     (if \<not> has_process_exited (serial r) then (False, r)
      else
        let r1 = r\<lparr>restarting := True\<rparr>;
            was_in_raw_repl = in_raw_repl (serial r1);
            r2 = (if \<not> was_in_raw_repl then safe_send MPREMOTE_SOFT_REBOOT r1 else r1)
        in
          (if \<not> can_restart (serial r2) then (False, r2\<lparr>alive := False, restarting := False\<rparr>)
           else
             (case do_restart (serial r2) of
                Raises \<Rightarrow> (False, r2\<lparr>alive := False, restarting := False\<rparr>)
              | Returns (False, s) \<Rightarrow>
                  (False, r2\<lparr>serial := s, alive := False, restarting := False\<rparr>)
              | Returns (True, s) \<Rightarrow>
                  (True,
                   (complete_restart IS_WINDOWS was_in_raw_repl (r2\<lparr>serial := s\<rparr>))
                     \<lparr>restarting := False\<rparr>))))"

text \<open>One iteration of the \<^verbatim>\<open>while self.alive\<close> loop of \<^verbatim>\<open>reader\<close>.\<close>

definition reader_iteration :: "bool \<Rightarrow> redirector \<Rightarrow> redirector" where
  "reader_iteration IS_WINDOWS r =
     (case handle_process_exit IS_WINDOWS r of
        (True, r') \<Rightarrow> r'
      | (False, r') \<Rightarrow>
          (case VirtualSerialPort_read MP_BRIDGE_READ_BUFFER_SIZE (serial r') of
             (data, s) \<Rightarrow>
               (if data \<noteq> [] then send_to_client data (r'\<lparr>serial := s\<rparr>)
                else r'\<lparr>serial := s\<rparr>)))"

section \<open>The history of a drain\<close>

text \<open>
  To say when the drain loop stops, its two variables are read off the chunks the PTY has
  returned so far: \<open>accumulated\<close> is their concatenation and \<open>empty_reads\<close> the number of
  empty chunks at the end of the list. \<open>chunks k rs\<close> are the first \<open>k\<close> chunks a PTY with
  the script \<open>rs\<close> returns.
\<close>

fun chunks :: "nat \<Rightarrow> bytes outcome list \<Rightarrow> bytes list" where
  "chunks 0 rs = []"
| "chunks (Suc k) [] = [] # chunks k []"
| "chunks (Suc k) (Returns c # rs) = c # chunks k rs"
| "chunks (Suc k) (Raises # rs) = []"

definition trailing_empties :: "bytes list \<Rightarrow> nat" where
  "trailing_empties cs = length (takeWhile (\<lambda>c. c = []) (rev cs))"

text \<open>
  The exit test of the loop body after the reads \<open>cs\<close>: the prompt test after a non-empty
  chunk, the two tests of the counter after an empty one.
\<close>

definition stop_after :: "nat \<Rightarrow> bytes list \<Rightarrow> bool" where
  "stop_after m cs =
     (cs \<noteq> [] \<and>
      (if last cs \<noteq> [] then prompt_seen (concat cs)
       else (m < trailing_empties cs \<and> concat cs \<noteq> []) \<or> m * 2 < trailing_empties cs))"

text \<open>
  The exit test in the words of the specification: the prompt has been seen, or the budget
  of \<open>m\<close> empty reads is used up.
\<close>

definition spec_stop_after :: "nat \<Rightarrow> bytes list \<Rightarrow> bool" where
  "spec_stop_after m cs =
     (prompt_seen (concat cs) \<or> m \<le> length (filter (\<lambda>c. c = []) cs))"

text \<open>The number of PTY reads the drain loop makes, counted in the log of the PTY.\<close>

definition drain_reads :: "nat \<Rightarrow> pty_process \<Rightarrow> nat" where
  "drain_reads m p =
     length (read_log (snd (drain max_attempts m [] 0 p))) - length (read_log p)"

abbreviation drain_call :: "int \<times> nat" where
  "drain_call \<equiv> (MP_BRIDGE_READ_BUFFER_SIZE, MP_BRIDGE_DRAIN_TIMEOUT)"



section \<open>Concrete states\<close>

text \<open>
  A running child that has nothing to say, the virtual serial port \<^verbatim>\<open>main\<close> builds on it,
  a raw-socket redirector on that port, and a Windows PTY on a live child. The theorems
  below are instantiated on variations of these.
\<close>

definition example_pty :: pty_process where
  "example_pty = \<lparr>reads = [], writes = [], poll_status = None, read_log = [], written = []\<rparr>"

definition example_serial :: VirtualSerialPort where
  "example_serial = main_virtual_serial example_pty (Returns (Some example_pty))"

definition example_redirector :: redirector where
  "example_redirector =
     \<lparr>serial = example_serial, alive = True, restarting = False, sent = [],
      sendall_script = [], frame_out = (\<lambda>data. data)\<rparr>"

definition example_winpty :: WinPTY where
  "example_winpty =
     \<lparr>isalive = Returns True, get_exitstatus = Returns None, read_results = [],
      write_results = []\<rparr>"

definition example_windows_pty :: WindowsPTYProcess where
  "example_windows_pty = \<lparr>w_closed = False, w_pty = example_winpty\<rparr>"

text \<open>
  A Windows PTY whose handle raises when asked whether the child is alive, and a redirector
  whose port sits on a PTY process that polls as this one does.
\<close>

definition poll_raises_windows_pty :: WindowsPTYProcess where
  "poll_raises_windows_pty = example_windows_pty\<lparr>w_pty := example_winpty\<lparr>isalive := Raises\<rparr>\<rparr>"

definition poll_raises_redirector :: redirector where
  "poll_raises_redirector =
     example_redirector\<lparr>serial := example_serial
       \<lparr>pty_process := example_pty
          \<lparr>poll_status := WindowsPTYProcess_poll poll_raises_windows_pty\<rparr>\<rparr>\<rparr>"

text \<open>
  A child that says one byte and then nothing; a Unix PTY whose \<^verbatim>\<open>os.read\<close> fails after the
  banner; the calls a restart in raw REPL mode can make on the new child, which are the
  read of the banner, the write of CTRL-A and the reads of the drain; and a redirector in
  raw REPL mode whose child has exited and whose restart callback delivers the given new
  child.
\<close>

definition one_chunk_pty :: pty_process where
  "one_chunk_pty = example_pty\<lparr>reads := [Returns ''x'']\<rparr>"




section \<open>What the operations leave alone\<close>

lemma pty_read_keeps:
  "poll_status (snd (pty_read sz tmo p)) = poll_status p"
  "writes (snd (pty_read sz tmo p)) = writes p"
  "written (snd (pty_read sz tmo p)) = written p"
  "read_log (snd (pty_read sz tmo p)) = read_log p @ [(sz, tmo)]"
  by (simp_all add: pty_read_def split: list.split)

lemma pty_write_keeps:
  "poll_status (snd (pty_write d p)) = poll_status p"
  "reads (snd (pty_write d p)) = reads p"
  "read_log (snd (pty_write d p)) = read_log p"
  by (simp_all add: pty_write_def split: list.split)

lemma drain_keeps_poll_status:
  "poll_status (snd (drain k m acc er p)) = poll_status p"
proof (induction k arbitrary: acc er p)
  case 0
  then show ?case by simp
next
  case (Suc k)
  have "poll_status (snd (pty_read MP_BRIDGE_READ_BUFFER_SIZE MP_BRIDGE_DRAIN_TIMEOUT p)) = poll_status p"
    by (rule pty_read_keeps)
  with Suc show ?case
    by (auto split: prod.splits outcome.splits)
qed

lemma safe_send_fields:
  "serial (safe_send d r) = serial r"
  "frame_out (safe_send d r) = frame_out r"
  "restarting (safe_send d r) = restarting r"
  by (simp_all add: safe_send_def send_to_client_def write_to_socket_def split: list.split)

lemma safe_send_healthy:
  "sendall_script r = [] \<Longrightarrow> sendall_script (safe_send d r) = []"
  "sendall_script r = [] \<Longrightarrow> alive (safe_send d r) = alive r"
  "sendall_script r = [] \<Longrightarrow> sent (safe_send d r) = sent r @ [frame_out r d]"
  by (simp_all add: safe_send_def send_to_client_def write_to_socket_def)

lemma set_pty_fields:
  "alive (set_pty p r) = alive r"
  "sent (set_pty p r) = sent r"
  "sendall_script (set_pty p r) = sendall_script r"
  "frame_out (set_pty p r) = frame_out r"
  "restarting (set_pty p r) = restarting r"
  "pty_process (serial (set_pty p r)) = p"
  "timeout (serial (set_pty p r)) = timeout (serial r)"
  "in_raw_repl (serial (set_pty p r)) = in_raw_repl (serial r)"
  by (simp_all add: set_pty_def)

lemma set_in_raw_repl_fields:
  "alive (set_in_raw_repl b r) = alive r"
  "sent (set_in_raw_repl b r) = sent r"
  "sendall_script (set_in_raw_repl b r) = sendall_script r"
  "frame_out (set_in_raw_repl b r) = frame_out r"
  "restarting (set_in_raw_repl b r) = restarting r"
  "pty_process (serial (set_in_raw_repl b r)) = pty_process (serial r)"
  "timeout (serial (set_in_raw_repl b r)) = timeout (serial r)"
  "in_raw_repl (serial (set_in_raw_repl b r)) = b"
  by (simp_all add: set_in_raw_repl_def)

lemma read_banner_fields:
  "alive (snd (read_banner r)) = alive r"
  "sent (snd (read_banner r)) = sent r"
  "sendall_script (snd (read_banner r)) = sendall_script r"
  "frame_out (snd (read_banner r)) = frame_out r"
  "timeout (serial (snd (read_banner r))) = timeout (serial r)"
  "poll_status (pty_process (serial (snd (read_banner r)))) = poll_status (pty_process (serial r))"
  by (auto simp: read_banner_def set_pty_def pty_read_def split: prod.split outcome.split list.split)

lemma reenter_healthy:
  assumes "sendall_script r = []"
  shows "alive (reenter_raw_repl w r) = alive r"
    and "poll_status (pty_process (serial (reenter_raw_repl w r))) = poll_status (pty_process (serial r))"
proof -
  obtain o1 p1 where w1: "pty_write CTRL_A (pty_process (serial r)) = (o1, p1)"
    by (cases "pty_write CTRL_A (pty_process (serial r))")
  have p1: "poll_status p1 = poll_status (pty_process (serial r))"
    using pty_write_keeps(1)[of CTRL_A "pty_process (serial r)"] w1 by simp
  obtain o2 p2 where d: "drain max_attempts (max_empty_reads w) [] 0 p1 = (o2, p2)"
    by (cases "drain max_attempts (max_empty_reads w) [] 0 p1")
  have p2: "poll_status p2 = poll_status p1"
    using drain_keeps_poll_status[of max_attempts "max_empty_reads w" "[]" 0 p1] d by simp
  show "alive (reenter_raw_repl w r) = alive r"
    using assms w1 d
    by (simp add: reenter_raw_repl_def reenter_raw_repl_try_def reenter_raw_repl_except_def
        safe_send_healthy safe_send_fields set_pty_fields set_in_raw_repl_fields
        split: outcome.split)
  show "poll_status (pty_process (serial (reenter_raw_repl w r))) = poll_status (pty_process (serial r))"
    using assms w1 d p1 p2
    by (simp add: reenter_raw_repl_def reenter_raw_repl_try_def reenter_raw_repl_except_def
        safe_send_healthy safe_send_fields set_pty_fields set_in_raw_repl_fields
        split: outcome.split)
qed

lemma complete_restart_healthy:
  assumes "sendall_script r = []"
  shows "alive (complete_restart w was r) = alive r"
    and "poll_status (pty_process (serial (complete_restart w was r))) = poll_status (pty_process (serial r))"
proof -
  obtain b r' where rb: "read_banner r = (b, r')" by (cases "read_banner r")
  have r': "sendall_script r' = []" "alive r' = alive r"
    "poll_status (pty_process (serial r')) = poll_status (pty_process (serial r))"
    using read_banner_fields[of r] rb assms by simp_all
  show "alive (complete_restart w was r) = alive r"
    using rb r' by (simp add: complete_restart_def reenter_healthy safe_send_healthy)
  show "poll_status (pty_process (serial (complete_restart w was r))) = poll_status (pty_process (serial r))"
    using rb r' by (simp add: complete_restart_def reenter_healthy safe_send_fields)
qed

lemma read_keeps_timeout: "timeout (snd (VirtualSerialPort_read n s)) = timeout s"
  by (auto simp: VirtualSerialPort_read_def update_raw_repl_state_from_response_def
      split: prod.split outcome.split)

lemma reenter_keeps_timeout: "timeout (serial (reenter_raw_repl w r)) = timeout (serial r)"
  by (simp add: reenter_raw_repl_def reenter_raw_repl_try_def reenter_raw_repl_except_def
      safe_send_fields set_pty_fields set_in_raw_repl_fields
      split: prod.split outcome.split)

lemma complete_restart_keeps_timeout:
  "timeout (serial (complete_restart w was r)) = timeout (serial r)"
proof -
  obtain b r' where rb: "read_banner r = (b, r')" by (cases "read_banner r")
  have "timeout (serial r') = timeout (serial r)"
    using read_banner_fields(5)[of r] rb by simp
  then show ?thesis
    using rb by (simp add: complete_restart_def reenter_keeps_timeout safe_send_fields)
qed

lemma handle_process_exit_keeps_timeout:
  "timeout (serial (snd (handle_process_exit w r))) = timeout (serial r)"
  by (simp add: handle_process_exit_def Let_def do_restart_def complete_restart_keeps_timeout
      safe_send_fields split: option.split outcome.split)

lemma reader_iteration_keeps_timeout:
  "timeout (serial (reader_iteration w r)) = timeout (serial r)"
proof -
  obtain b r' where h: "handle_process_exit w r = (b, r')" by (cases "handle_process_exit w r")
  have t: "timeout (serial r') = timeout (serial r)"
    using handle_process_exit_keeps_timeout[of w r] h by simp
  obtain d s where rd: "VirtualSerialPort_read MP_BRIDGE_READ_BUFFER_SIZE (serial r') = (d, s)"
    by (cases "VirtualSerialPort_read MP_BRIDGE_READ_BUFFER_SIZE (serial r')")
  have "timeout s = timeout (serial r')"
    using read_keeps_timeout[of MP_BRIDGE_READ_BUFFER_SIZE "serial r'"] rd by simp
  with t h rd show ?thesis
    by (simp add: reader_iteration_def send_to_client_def write_to_socket_def
        split: list.split bool.split)
qed

section \<open>The drain loop, read by read\<close>

lemma drain_read_log:
  "\<exists>k\<le>n. read_log (snd (drain n m acc er p)) = read_log p @ replicate k drain_call"
proof (induction n arbitrary: acc er p)
  case 0
  then show ?case by simp
next
  case (Suc n)
  obtain out p' where rd: "pty_read MP_BRIDGE_READ_BUFFER_SIZE MP_BRIDGE_DRAIN_TIMEOUT p = (out, p')"
    by (cases "pty_read MP_BRIDGE_READ_BUFFER_SIZE MP_BRIDGE_DRAIN_TIMEOUT p")
  have log: "read_log p' = read_log p @ [drain_call]"
    using pty_read_keeps(4)[of MP_BRIDGE_READ_BUFFER_SIZE MP_BRIDGE_DRAIN_TIMEOUT p] rd by simp
  have one: "\<exists>k\<le>Suc n. read_log p' = read_log p @ replicate k drain_call"
    using log by (intro exI[of _ 1]) simp
  have rec: "\<exists>k\<le>Suc n. read_log (snd (drain n m acc' er' p')) = read_log p @ replicate k drain_call"
    for acc' er'
  proof -
    obtain k where "k \<le> n"
      and "read_log (snd (drain n m acc' er' p')) = read_log p' @ replicate k drain_call"
      using Suc.IH[of acc' er' p'] by blast
    then show ?thesis
      using log by (intro exI[of _ "Suc k"]) (simp add: replicate_app_Cons_same)
  qed
  show ?case
  proof (cases out)
    case Raises
    then show ?thesis using rd one by simp
  next
    case (Returns chunk)
    then show ?thesis using rd one rec by (simp del: replicate_Suc)
  qed
qed

lemma trailing_empties_snoc:
  "trailing_empties (cs @ [c]) = (if c = [] then Suc (trailing_empties cs) else 0)"
  by (simp add: trailing_empties_def)

lemma stop_after_snoc:
  "stop_after m (hist @ [c]) =
     (if c \<noteq> [] then prompt_seen (concat hist @ c)
      else (m < Suc (trailing_empties hist) \<and> concat hist \<noteq> []) \<or> m * 2 < Suc (trailing_empties hist))"
  by (simp add: stop_after_def trailing_empties_snoc)

lemma drain_trace:
  assumes "Raises \<notin> set (reads p)"
  shows "\<exists>k. read_log (snd (drain n m (concat hist) (trailing_empties hist) p))
              = read_log p @ replicate k drain_call
           \<and> k \<le> n \<and> (0 < n \<longrightarrow> 1 \<le> k)
           \<and> (\<forall>j. 1 \<le> j \<and> j < k \<longrightarrow> \<not> stop_after m (hist @ chunks j (reads p)))
           \<and> (k < n \<longrightarrow> stop_after m (hist @ chunks k (reads p)))
           \<and> fst (drain n m (concat hist) (trailing_empties hist) p)
               = Returns (concat (hist @ chunks k (reads p)))"
  using assms
proof (induction n arbitrary: hist p)
  case 0
  then show ?case by simp
next
  case (Suc n)
  define c where "c = (case reads p of [] \<Rightarrow> [] | Returns d # _ \<Rightarrow> d | Raises # _ \<Rightarrow> [])"
  define p' where "p' = p\<lparr>reads := tl (reads p), read_log := read_log p @ [drain_call]\<rparr>"
  have rd: "pty_read MP_BRIDGE_READ_BUFFER_SIZE MP_BRIDGE_DRAIN_TIMEOUT p = (Returns c, p')"
    using Suc.prems
    by (cases "reads p"; cases "hd (reads p)") (auto simp: pty_read_def c_def p'_def)
  have ch: "chunks (Suc j) (reads p) = c # chunks j (reads p')" for j
    using Suc.prems
    by (cases "reads p"; cases "hd (reads p)") (auto simp: c_def p'_def)
  have nr: "Raises \<notin> set (reads p')"
    using Suc.prems by (cases "reads p") (auto simp: p'_def)
  have log: "read_log p' = read_log p @ [drain_call]"
    by (simp add: p'_def)
  let ?stop = "stop_after m (hist @ [c])"
  show ?case
  proof (cases ?stop)
    case True
    have d: "drain (Suc n) m (concat hist) (trailing_empties hist) p
               = (Returns (concat hist @ c), p')"
      using True rd by (auto simp: stop_after_snoc split: if_splits)
    show ?thesis
      by (rule exI[of _ 1]) (use d log True ch[of 0] in simp)
  next
    case False
    have d: "drain (Suc n) m (concat hist) (trailing_empties hist) p
               = drain n m (concat (hist @ [c])) (trailing_empties (hist @ [c])) p'"
      using False rd by (auto simp: stop_after_snoc trailing_empties_snoc split: if_splits)
    obtain k where k:
      "read_log (snd (drain n m (concat (hist @ [c])) (trailing_empties (hist @ [c])) p'))
         = read_log p' @ replicate k drain_call"
      "k \<le> n" "0 < n \<longrightarrow> 1 \<le> k"
      "\<forall>j. 1 \<le> j \<and> j < k \<longrightarrow> \<not> stop_after m ((hist @ [c]) @ chunks j (reads p'))"
      "k < n \<longrightarrow> stop_after m ((hist @ [c]) @ chunks k (reads p'))"
      "fst (drain n m (concat (hist @ [c])) (trailing_empties (hist @ [c])) p')
         = Returns (concat ((hist @ [c]) @ chunks k (reads p')))"
      using Suc.IH[OF nr, of "hist @ [c]"] by blast
    have early: "\<not> stop_after m (hist @ chunks j (reads p))" if "1 \<le> j" "j < Suc k" for j
    proof (cases j)
      case 0
      then show ?thesis using that by simp
    next
      case (Suc i)
      show ?thesis
      proof (cases i)
        case 0
        then show ?thesis using Suc False ch[of 0] by simp
      next
        case (Suc i')
        then have "1 \<le> i \<and> i < k" using that \<open>j = Suc i\<close> by simp
        then have "\<not> stop_after m ((hist @ [c]) @ chunks i (reads p'))"
          using k(4) by blast
        then show ?thesis using \<open>j = Suc i\<close> ch[of i] by simp
      qed
    qed
    show ?thesis
    proof (rule exI[of _ "Suc k"], intro conjI)
      show "read_log (snd (drain (Suc n) m (concat hist) (trailing_empties hist) p))
              = read_log p @ replicate (Suc k) drain_call"
        using d k(1) log by (simp add: replicate_app_Cons_same)
      show "Suc k \<le> Suc n" using k(2) by simp
      show "0 < Suc n \<longrightarrow> 1 \<le> Suc k" by simp
      show "\<forall>j. 1 \<le> j \<and> j < Suc k \<longrightarrow> \<not> stop_after m (hist @ chunks j (reads p))"
        using early by blast
      show "Suc k < Suc n \<longrightarrow> stop_after m (hist @ chunks (Suc k) (reads p))"
        using k(5) ch[of k] by simp
      show "fst (drain (Suc n) m (concat hist) (trailing_empties hist) p)
              = Returns (concat (hist @ chunks (Suc k) (reads p)))"
        using d k(6) ch[of k] by simp
    qed
  qed
qed


lemma one_chunk_reads: "drain_reads (max_empty_reads False) one_chunk_pty = 7"
  by code_simp

section \<open>What a send leaves behind\<close>











section \<open>The two steps of the Windows reader\<close>

text \<open>
  The filter deletes a CSI sequence wherever it stands and treats the bytes before and
  after it on their own; it keeps data without ESC as it is. The normalisation replaces an
  occurrence of CR CR LF by CR LF wherever it stands, and keeps data without CR as it is.
\<close>

lemma csi_sequenceE:
  assumes "csi_sequence seq"
  obtains params final where "seq = ESC # CHR ''['' # params @ [final]"
    and "\<forall>c\<in>set params. is_csi_param c" and "is_ascii_letter final"
proof -
  from assms obtain rest where s: "seq = ESC # CHR ''['' # rest" and r: "rest \<noteq> []"
    and p: "list_all is_csi_param (butlast rest)" and f: "is_ascii_letter (last rest)"
    by (auto simp: csi_sequence_def split: list.splits)
  have "seq = ESC # CHR ''['' # butlast rest @ [last rest]"
    using s r by simp
  then show ?thesis
    using p f that by (auto simp: list_all_iff)
qed

lemma letter_not_param: "is_ascii_letter c \<Longrightarrow> \<not> is_csi_param c"
  by (auto simp: is_ascii_letter_def is_csi_param_def Let_def)

lemma ESC_not_param: "\<not> is_csi_param ESC" "\<not> is_ascii_letter ESC" "ESC \<noteq> CHR ''[''"
  by (simp_all add: is_ascii_letter_def is_csi_param_def ESC_def)

lemma csi_rest_sequence:
  assumes "csi_sequence seq"
  shows "csi_rest (seq @ ys) = Some ys"
proof -
  obtain params final where s: "seq = ESC # CHR ''['' # params @ [final]"
    and p: "\<forall>c\<in>set params. is_csi_param c" and f: "is_ascii_letter final"
    using assms by (rule csi_sequenceE)
  have "dropWhile is_csi_param (params @ final # ys) = final # ys"
    using p f by (simp add: dropWhile_append3 letter_not_param)
  then show ?thesis
    using s f by (simp add: csi_rest_def)
qed

lemma filter_no_ESC: "ESC \<notin> set xs \<Longrightarrow> filter_escape_sequences xs = xs"
proof (induction xs)
  case Nil
  then show ?case by simp
next
  case (Cons x xs)
  then have "csi_rest (x # xs) = None"
    by (auto simp: csi_rest_def split: list.splits)
  with Cons show ?case by simp
qed


lemma csi_rest_before_ESC:
  assumes "xs \<noteq> []"
  shows "csi_rest (xs @ ESC # zs) = map_option (\<lambda>rest. rest @ ESC # zs) (csi_rest xs)"
proof (cases xs)
  case Nil
  with assms show ?thesis by simp
next
  case (Cons e ws)
  show ?thesis
  proof (cases ws)
    case Nil
    with Cons show ?thesis by (simp add: csi_rest_def ESC_not_param)
  next
    case (Cons b vs)
    show ?thesis
    proof (cases "\<forall>c\<in>set vs. is_csi_param c")
      case True
      then have "dropWhile is_csi_param (vs @ ESC # zs) = ESC # zs"
        by (simp add: dropWhile_append3 ESC_not_param)
      moreover have "dropWhile is_csi_param vs = []"
        using True by simp
      ultimately show ?thesis
        using \<open>xs = e # ws\<close> \<open>ws = b # vs\<close>
        by (simp add: csi_rest_def ESC_not_param del: dropWhile_eq_Nil_conv)
    next
      case False
      then obtain c where "c \<in> set vs" "\<not> is_csi_param c"
        by blast
      then have "dropWhile is_csi_param (vs @ ESC # zs) = dropWhile is_csi_param vs @ ESC # zs"
        by (rule dropWhile_append1)
      moreover from False have "dropWhile is_csi_param vs \<noteq> []"
        by simp
      ultimately show ?thesis
        using \<open>xs = e # ws\<close> \<open>ws = b # vs\<close>
        by (cases "dropWhile is_csi_param vs") (simp_all add: csi_rest_def)
    qed
  qed
qed

lemma filter_deletes_sequence:
  assumes "csi_sequence seq"
  shows "filter_escape_sequences (xs @ seq @ ys)
           = filter_escape_sequences xs @ filter_escape_sequences ys"
proof (induction xs rule: filter_escape_sequences.induct)
  case 1
  obtain ws where "seq = ESC # ws"
    using assms by (auto elim: csi_sequenceE)
  then show ?case
    using csi_rest_sequence[OF assms, of ys] by simp
next
  case (2 x xs)
  obtain ws where seq: "seq = ESC # ws"
    using assms by (auto elim: csi_sequenceE)
  have r: "csi_rest ((x # xs) @ seq @ ys)
             = map_option (\<lambda>rest. rest @ seq @ ys) (csi_rest (x # xs))"
    using csi_rest_before_ESC[of "x # xs" "ws @ ys"] seq by simp
  show ?case
  proof (cases "csi_rest (x # xs)")
    case None
    then show ?thesis using r "2.IH" by simp
  next
    case (Some rest)
    then show ?thesis using r "2.IH" by simp
  qed
qed

lemma normalize_no_CR: "CR \<notin> set xs \<Longrightarrow> normalize_crlf xs = xs"
  by (induction xs rule: normalize_crlf.induct) auto

lemma normalize_replaces_occurrence:
  "normalize_crlf (xs @ [CR, CR, LF] @ ys) = normalize_crlf xs @ [CR, LF] @ normalize_crlf ys"
proof -
  have "CR \<noteq> LF" by (simp add: CR_def LF_def)
  then show ?thesis
    by (induction xs rule: normalize_crlf.induct) simp_all
qed


section \<open>The platform's PTY through the interface\<close>



lemma interface_read:
  "fst (pty_read sz tmo (interface (ReadCall sz tmo # calls) c))
     = Returns (fst (PTYProcess_read sz tmo c))"
  "reads (snd (pty_read sz tmo (interface (ReadCall sz tmo # calls) c)))
     = reads (interface calls (snd (PTYProcess_read sz tmo c)))"
  "writes (snd (pty_read sz tmo (interface (ReadCall sz tmo # calls) c)))
     = writes (interface calls (snd (PTYProcess_read sz tmo c)))"
  by (simp_all add: pty_read_def interface_def split: prod.splits)

lemma interface_write:
  "fst (pty_write data (interface (WriteCall data # calls) c))
     = Returns (fst (PTYProcess_write data c))"
  "reads (snd (pty_write data (interface (WriteCall data # calls) c)))
     = reads (interface calls (snd (PTYProcess_write data c)))"
  "writes (snd (pty_write data (interface (WriteCall data # calls) c)))
     = writes (interface calls (snd (PTYProcess_write data c)))"
  by (simp_all add: pty_write_def interface_def split: prod.splits)

section \<open>Reading from the virtual serial port\<close>

text \<open>
  C5. For every \<open>n > 0\<close>, when the pending buffer is not empty, \<^verbatim>\<open>read(n)\<close> returns the first
  \<open>min n |pending|\<close> bytes of the buffer, removes exactly those bytes from it, and makes no
  call on the PTY: the PTY process, with its log of reads, is the one before the call.
\<close>

theorem read_drains_pending_first:
  assumes "0 < n" and "pending_reboot_output s \<noteq> []"
  shows "fst (VirtualSerialPort_read n s)
           = take (min (nat n) (length (pending_reboot_output s))) (pending_reboot_output s)
       \<and> pending_reboot_output (snd (VirtualSerialPort_read n s))
           = drop (min (nat n) (length (pending_reboot_output s))) (pending_reboot_output s)
       \<and> fst (VirtualSerialPort_read n s) @ pending_reboot_output (snd (VirtualSerialPort_read n s))
           = pending_reboot_output s
       \<and> pty_process (snd (VirtualSerialPort_read n s)) = pty_process s
       \<and> read_log (pty_process (snd (VirtualSerialPort_read n s))) = read_log (pty_process s)"
  using assms by (simp add: VirtualSerialPort_read_def slice_to_def slice_from_def min_def)

theorem read_drains_pending_first_witness:
  "(0::int) < 2
   \<and> pending_reboot_output (example_serial\<lparr>pending_reboot_output := ''abc''\<rparr>) \<noteq> []
   \<and> fst (VirtualSerialPort_read 2 (example_serial\<lparr>pending_reboot_output := ''abc''\<rparr>)) = ''ab''
   \<and> pending_reboot_output
        (snd (VirtualSerialPort_read 2 (example_serial\<lparr>pending_reboot_output := ''abc''\<rparr>))) = ''c''
   \<and> read_log (pty_process
        (snd (VirtualSerialPort_read 2 (example_serial\<lparr>pending_reboot_output := ''abc''\<rparr>)))) = []"
  using read_drains_pending_first [of 2 "example_serial\<lparr>pending_reboot_output := ''abc''\<rparr>"]
  by (simp add: example_serial_def example_pty_def main_virtual_serial_def
      VirtualSerialPort_init_def)

text \<open>
  C9. For every \<open>n > 0\<close>, a closed port whose pending buffer is not empty still returns
  bytes from the buffer, and not the empty string: the test of the buffer comes before the
  test of \<open>closed\<close>. Only with an empty buffer does the closed port return \<^verbatim>\<open>b""\<close>, and then
  nothing of the port changes.
\<close>

theorem closed_port_serves_pending_first:
  assumes "0 < n" and "closed s"
  shows "(pending_reboot_output s \<noteq> [] \<longrightarrow>
            fst (VirtualSerialPort_read n s) = take (nat n) (pending_reboot_output s)
          \<and> fst (VirtualSerialPort_read n s) \<noteq> [])
       \<and> (pending_reboot_output s = [] \<longrightarrow>
            fst (VirtualSerialPort_read n s) = [] \<and> snd (VirtualSerialPort_read n s) = s)"
  using assms by (simp add: VirtualSerialPort_read_def slice_to_def)

theorem closed_port_serves_pending_first_witness:
  "(0::int) < 2
   \<and> closed (example_serial\<lparr>closed := True, pending_reboot_output := ''abc''\<rparr>)
   \<and> fst (VirtualSerialPort_read 2
            (example_serial\<lparr>closed := True, pending_reboot_output := ''abc''\<rparr>)) = ''ab''
   \<and> fst (VirtualSerialPort_read 2 (snd (VirtualSerialPort_read 2
            (example_serial\<lparr>closed := True, pending_reboot_output := ''abc''\<rparr>)))) = ''c''
   \<and> closed (snd (VirtualSerialPort_read 2 (snd (VirtualSerialPort_read 2
            (example_serial\<lparr>closed := True, pending_reboot_output := ''abc''\<rparr>)))))
   \<and> pending_reboot_output (snd (VirtualSerialPort_read 2 (snd (VirtualSerialPort_read 2
            (example_serial\<lparr>closed := True, pending_reboot_output := ''abc''\<rparr>))))) = []
   \<and> fst (VirtualSerialPort_read 2 (snd (VirtualSerialPort_read 2 (snd (VirtualSerialPort_read 2
            (example_serial\<lparr>closed := True, pending_reboot_output := ''abc''\<rparr>)))))) = []"
  using closed_port_serves_pending_first
      [of 2 "example_serial\<lparr>closed := True, pending_reboot_output := ''abc''\<rparr>"]
    closed_port_serves_pending_first
      [of 2 "snd (VirtualSerialPort_read 2 (snd (VirtualSerialPort_read 2
               (example_serial\<lparr>closed := True, pending_reboot_output := ''abc''\<rparr>))))"]
  by (simp add: VirtualSerialPort_read_def slice_to_def slice_from_def example_serial_def
      main_virtual_serial_def VirtualSerialPort_init_def)

section \<open>Tracking the raw REPL\<close>

lemma bytes_in_single: "bytes_in [c] xs \<longleftrightarrow> c \<in> set xs"
  by (induction xs) (auto simp: startswith_def)

text \<open>
  C6, as the code has it. On a port that is not closed, a write whose data contains the
  byte 0x01 sets \<open>in_raw_repl\<close>; a write whose data contains 0x02 and no 0x01 clears it;
  any other write leaves it. On a closed port \<^verbatim>\<open>write\<close> returns before looking at the data
  and \<open>in_raw_repl\<close> keeps its value.
\<close>

theorem write_tracks_raw_repl:
  "in_raw_repl (snd (VirtualSerialPort_write d s)) =
     (if closed s then in_raw_repl s
      else if CHR 0x01 \<in> set d then True
      else if CHR 0x02 \<in> set d then False
      else in_raw_repl s)"
  by (simp add: VirtualSerialPort_write_def Let_def CTRL_A_def CTRL_B_def bytes_in_single
      split: prod.split outcome.split)

text \<open>
  The property as the specification words it fails twice: data holding both control bytes
  contains 0x02 and yet sets the flag, and data containing 0x01 written to a closed port
  leaves the flag clear.
\<close>

theorem write_sets_flag_counterexample:
  "CHR 0x02 \<in> set [CHR 0x01, CHR 0x02]
   \<and> in_raw_repl (snd (VirtualSerialPort_write [CHR 0x01, CHR 0x02] example_serial))
   \<and> CHR 0x01 \<in> set [CHR 0x01]
   \<and> \<not> in_raw_repl (snd (VirtualSerialPort_write [CHR 0x01] (example_serial\<lparr>closed := True\<rparr>)))"
  by (simp add: VirtualSerialPort_write_def Let_def CTRL_A_def CTRL_B_def startswith_def
      example_serial_def main_virtual_serial_def VirtualSerialPort_init_def
      pty_write_def example_pty_def)

text \<open>
  C10. The detection on child output runs only on bytes that \<^verbatim>\<open>read\<close> has just taken from
  the PTY. A read served from the pending buffer leaves \<open>in_raw_repl\<close> as it is, the probe
  of \<^verbatim>\<open>update_in_waiting\<close> leaves it as it is, and so does the read that then returns the
  probed bytes from the buffer, whatever they contain. A fresh, non-empty read sets the
  flag when the data contains the raw REPL prompt, clears it when the flag is set and the
  data contains \<^verbatim>\<open>>>>\<close>, and leaves it otherwise.
\<close>

theorem pending_bytes_leave_raw_repl_state:
  "(pending_reboot_output s \<noteq> [] \<longrightarrow>
      in_raw_repl (snd (VirtualSerialPort_read n s)) = in_raw_repl s)
   \<and> in_raw_repl (update_in_waiting s) = in_raw_repl s
   \<and> (pending_reboot_output (update_in_waiting s) \<noteq> [] \<longrightarrow>
      in_raw_repl (snd (VirtualSerialPort_read n (update_in_waiting s))) = in_raw_repl s)
   \<and> (pending_reboot_output s = [] \<and> \<not> closed s
        \<and> fst (pty_read n (timeout s) (pty_process s)) = Returns data \<and> data \<noteq> [] \<longrightarrow>
      in_raw_repl (snd (VirtualSerialPort_read n s)) =
        (if bytes_in RAW_REPL_PROMPT data then True
         else if bytes_in ''>>>'' data \<and> in_raw_repl s then False
         else in_raw_repl s))"
  by (auto simp: VirtualSerialPort_read_def update_in_waiting_def
      update_raw_repl_state_from_response_def split: prod.splits outcome.splits)

text \<open>
  The same prompt bytes, once probed and served from the buffer, once read fresh: only the
  fresh read sets the flag.
\<close>

theorem pending_bytes_leave_raw_repl_state_witness:
  "pending_reboot_output (update_in_waiting
       (example_serial\<lparr>pty_process := example_pty\<lparr>reads := [Returns RAW_REPL_PROMPT]\<rparr>\<rparr>))
     = RAW_REPL_PROMPT
   \<and> fst (VirtualSerialPort_read 4096 (update_in_waiting
       (example_serial\<lparr>pty_process := example_pty\<lparr>reads := [Returns RAW_REPL_PROMPT]\<rparr>\<rparr>)))
     = RAW_REPL_PROMPT
   \<and> \<not> in_raw_repl (snd (VirtualSerialPort_read 4096 (update_in_waiting
       (example_serial\<lparr>pty_process := example_pty\<lparr>reads := [Returns RAW_REPL_PROMPT]\<rparr>\<rparr>))))
   \<and> in_raw_repl (snd (VirtualSerialPort_read 4096
       (example_serial\<lparr>pty_process := example_pty\<lparr>reads := [Returns RAW_REPL_PROMPT]\<rparr>\<rparr>)))"
  using pending_bytes_leave_raw_repl_state
    [of "example_serial\<lparr>pty_process := example_pty\<lparr>reads := [Returns RAW_REPL_PROMPT]\<rparr>\<rparr>"
        4096 RAW_REPL_PROMPT]
  by (simp add: VirtualSerialPort_read_def update_in_waiting_def pty_read_def
      update_raw_repl_state_from_response_def example_serial_def example_pty_def
      main_virtual_serial_def VirtualSerialPort_init_def slice_to_def slice_from_def
      RAW_REPL_PROMPT_def startswith_def)

section \<open>What the Windows reader delivers\<close>

text \<open>
  C3, as the code has it. Whenever the Windows PTY is open and a read of the handle gives a
  non-empty output, at the first attempt or at the second after an empty first one,
  \<^verbatim>\<open>WindowsPTYProcess.read\<close> returns that output normalised first and filtered after:
  \<open>filter_escape_sequences (normalize_crlf out)\<close>.
\<close>

theorem windows_read_normalizes_then_filters:
  assumes "\<not> w_closed w"
      and "out \<noteq> []"
      and "read_results (w_pty w) = Returns out # rest
           \<or> read_results (w_pty w) = Returns [] # Returns out # rest"
  shows "fst (WindowsPTYProcess_read sz tmo w) = filter_escape_sequences (normalize_crlf out)"
  using assms
  by (auto simp: WindowsPTYProcess_read_def WinPTY_read_def windows_decode_chunk_def)

theorem windows_read_normalizes_then_filters_witness:
  "fst (WindowsPTYProcess_read 4096 10
          (example_windows_pty\<lparr>w_pty := example_winpty
             \<lparr>read_results :=
                [Returns [], Returns ([ESC] @ ''[?1004h'' @ ''>>> '' @ [CR, CR, LF])]\<rparr>\<rparr>))
     = ''>>> '' @ [CR, LF]"
  using windows_read_normalizes_then_filters
    [of "example_windows_pty\<lparr>w_pty := example_winpty
           \<lparr>read_results :=
              [Returns [], Returns ([ESC] @ ''[?1004h'' @ ''>>> '' @ [CR, CR, LF])]\<rparr>\<rparr>"
        "[ESC] @ ''[?1004h'' @ ''>>> '' @ [CR, CR, LF]" "[]" 4096 10]
  by (simp add: example_windows_pty_def example_winpty_def
      csi_rest_def is_csi_param_def is_ascii_letter_def CR_def LF_def ESC_def)

text \<open>
  With the filter first and the normalisation after it, as the specification has it, the output
  CR, ESC \<^verbatim>\<open>[c\<close>, CR, LF would be delivered as CR LF. The reader delivers CR CR LF: the
  three bytes only meet once the escape sequence between them is gone, after the
  normalisation has run.
\<close>

theorem windows_read_order_counterexample:
  "fst (WindowsPTYProcess_read 4096 10
          (example_windows_pty\<lparr>w_pty := example_winpty
             \<lparr>read_results := [Returns [CR, ESC, CHR ''['', CHR ''c'', CR, LF]]\<rparr>\<rparr>))
     = [CR, CR, LF]
   \<and> spec_normalize_after_filter [CR, ESC, CHR ''['', CHR ''c'', CR, LF] = [CR, LF]
   \<and> [CR, CR, LF] \<noteq> [CR, LF]"
  by (simp add: WindowsPTYProcess_read_def WinPTY_read_def windows_decode_chunk_def
      spec_normalize_after_filter_def example_windows_pty_def example_winpty_def
      csi_rest_def is_csi_param_def is_ascii_letter_def CR_def LF_def ESC_def)

section \<open>Polling on Windows\<close>

text \<open>
  C8, as the code has it. On an open Windows PTY an exception raised by the handle during
  \<^verbatim>\<open>poll()\<close> is not told apart from an exit with status 0: \<^verbatim>\<open>poll()\<close> returns 0 in both
  cases. A redirector whose PTY process polls like that sees the child as exited and, with
  a restart callback that delivers a new process and a healthy socket, runs the restart:
  \<^verbatim>\<open>_handle_process_exit\<close> returns \<^verbatim>\<open>True\<close>, the new process is installed and the session
  stays alive.
\<close>

theorem windows_poll_exception_reads_as_exit:
  assumes "\<not> w_closed w" and "isalive (w_pty w) = Raises"
      and "poll_status (pty_process (serial r)) = WindowsPTYProcess_poll w"
      and "restart_callback (serial r) = Some (Returns (Some p))"
      and "sendall_script r = []" and "alive r"
  shows "WindowsPTYProcess_poll w = Some 0
       \<and> WindowsPTYProcess_poll w =
           WindowsPTYProcess_poll
             (w\<lparr>w_pty := (w_pty w)\<lparr>isalive := Returns False, get_exitstatus := Returns (Some 0)\<rparr>\<rparr>)
       \<and> \<not> WindowsPTYProcess_is_alive w
       \<and> has_process_exited (serial r)
       \<and> fst (handle_process_exit True r)
       \<and> alive (snd (handle_process_exit True r))
       \<and> poll_status (pty_process (serial (snd (handle_process_exit True r)))) = poll_status p"
proof -
  have poll: "WindowsPTYProcess_poll w = Some 0"
    using assms(1,2) by (simp add: WindowsPTYProcess_poll_def)
  have same: "WindowsPTYProcess_poll
       (w\<lparr>w_pty := (w_pty w)\<lparr>isalive := Returns False, get_exitstatus := Returns (Some 0)\<rparr>\<rparr>) = Some 0"
    using assms(1) by (simp add: WindowsPTYProcess_poll_def)
  have ex: "has_process_exited (serial r)"
    using poll assms(3) by (simp add: has_process_exited_def is_alive_def)
  define r2 where "r2 = (if \<not> in_raw_repl (serial r) then safe_send MPREMOTE_SOFT_REBOOT (r\<lparr>restarting := True\<rparr>)
                          else r\<lparr>restarting := True\<rparr>)"
  have r2: "sendall_script r2 = []" "alive r2" "serial r2 = serial r"
    using assms(5,6) by (simp_all add: r2_def safe_send_healthy safe_send_fields)
  define r3 where "r3 = r2\<lparr>serial := (serial r2)\<lparr>pty_process := p, in_raw_repl := False, closed := False\<rparr>\<rparr>"
  have r3: "sendall_script r3 = []" "alive r3" "poll_status (pty_process (serial r3)) = poll_status p"
    using r2 by (simp_all add: r3_def)
  have h: "handle_process_exit True r =
      (True, (complete_restart True (in_raw_repl (serial r)) r3)\<lparr>restarting := False\<rparr>)"
    using ex assms(4) r2(3)
    by (simp add: handle_process_exit_def Let_def can_restart_def do_restart_def r2_def[symmetric] r3_def)
  show ?thesis
    using poll same ex h r3 complete_restart_healthy[of r3 True "in_raw_repl (serial r)"]
    by (simp add: WindowsPTYProcess_is_alive_def)
qed


theorem windows_poll_exception_reads_as_exit_witness:
  "\<not> w_closed poll_raises_windows_pty
   \<and> isalive (w_pty poll_raises_windows_pty) = Raises
   \<and> restart_callback (serial poll_raises_redirector) = Some (Returns (Some example_pty))
   \<and> sendall_script poll_raises_redirector = []
   \<and> alive poll_raises_redirector
   \<and> WindowsPTYProcess_poll poll_raises_windows_pty = Some 0
   \<and> has_process_exited (serial poll_raises_redirector)
   \<and> fst (handle_process_exit True poll_raises_redirector)
   \<and> alive (snd (handle_process_exit True poll_raises_redirector))"
proof -
  have h1: "\<not> w_closed poll_raises_windows_pty"
    by (simp add: poll_raises_windows_pty_def example_windows_pty_def)
  have h2: "isalive (w_pty poll_raises_windows_pty) = Raises"
    by (simp add: poll_raises_windows_pty_def)
  have h3: "poll_status (pty_process (serial poll_raises_redirector))
              = WindowsPTYProcess_poll poll_raises_windows_pty"
    by (simp add: poll_raises_redirector_def)
  have h4: "restart_callback (serial poll_raises_redirector) = Some (Returns (Some example_pty))"
    by (simp add: poll_raises_redirector_def example_serial_def main_virtual_serial_def
        VirtualSerialPort_init_def)
  have h5: "sendall_script poll_raises_redirector = []"
    by (simp add: poll_raises_redirector_def example_redirector_def)
  have h6: "alive poll_raises_redirector"
    by (simp add: poll_raises_redirector_def example_redirector_def)
  show ?thesis
    using h1 h2 h4 h5 h6 windows_poll_exception_reads_as_exit [OF h1 h2 h3 h4 h5 h6]
    by simp
qed

text \<open>
  The specification wants the session closed and no restart after an exception in the poll. Here
  the handle raises, and the client gets the reboot banner of a restart, the new child's
  banner is read, and the session goes on.
\<close>

theorem windows_poll_exception_counterexample:
  "WindowsPTYProcess_poll poll_raises_windows_pty = Some 0
   \<and> fst (handle_process_exit True poll_raises_redirector)
   \<and> alive (snd (handle_process_exit True poll_raises_redirector))
   \<and> sent (snd (handle_process_exit True poll_raises_redirector)) = [MPREMOTE_SOFT_REBOOT]
   \<and> read_log (pty_process (serial (snd (handle_process_exit True poll_raises_redirector))))
        = [(4096, 50)]"
  by (simp add: poll_raises_windows_pty_def poll_raises_redirector_def
      example_windows_pty_def example_winpty_def example_redirector_def example_serial_def
      example_pty_def main_virtual_serial_def VirtualSerialPort_init_def
      WindowsPTYProcess_poll_def handle_process_exit_def has_process_exited_def is_alive_def
      can_restart_def do_restart_def complete_restart_def read_banner_def pty_read_def
      set_pty_def safe_send_def send_to_client_def write_to_socket_def Let_def
      MP_BRIDGE_READ_BUFFER_SIZE_def MP_BRIDGE_BANNER_READ_TIMEOUT_def)

section \<open>The read request of the reader flow\<close>

text \<open>
  C4, as the code has it. In an iteration of the reader in which the child has not exited,
  on the port that \<^verbatim>\<open>main\<close> builds (no operation changes its timeout): with an empty pending
  buffer and an open port the iteration makes exactly one PTY read, asking for 4096 bytes
  with a timeout of 100 ms; otherwise it makes no PTY read, and from a non-empty pending
  buffer it takes the first 4096 bytes at most. The port keeps its timeout.
\<close>

theorem reader_iteration_read_request:
  assumes "\<not> has_process_exited (serial r)"
      and "timeout (serial r) = timeout (main_virtual_serial p0 cb)"
  shows "(pending_reboot_output (serial r) = [] \<and> \<not> closed (serial r) \<longrightarrow>
           read_log (pty_process (serial (reader_iteration w r)))
             = read_log (pty_process (serial r)) @ [(4096, 100)])
       \<and> (pending_reboot_output (serial r) \<noteq> [] \<or> closed (serial r) \<longrightarrow>
           read_log (pty_process (serial (reader_iteration w r)))
             = read_log (pty_process (serial r)))
       \<and> (pending_reboot_output (serial r) \<noteq> [] \<longrightarrow>
           pending_reboot_output (serial (reader_iteration w r))
             = drop 4096 (pending_reboot_output (serial r)))
       \<and> timeout (serial (reader_iteration w r)) = timeout (main_virtual_serial p0 cb)"
proof -
  have h: "handle_process_exit w r = (False, r)"
    using assms(1) by (simp add: handle_process_exit_def)
  have t: "timeout (serial r) = 100"
    using assms(2) by (simp add: main_virtual_serial_def VirtualSerialPort_init_def)
  have "timeout (serial (reader_iteration w r)) = timeout (main_virtual_serial p0 cb)"
    using reader_iteration_keeps_timeout[of w r] assms(2) by simp
  moreover have "pending_reboot_output (serial r) = [] \<and> \<not> closed (serial r) \<longrightarrow>
           read_log (pty_process (serial (reader_iteration w r)))
             = read_log (pty_process (serial r)) @ [(4096, 100)]"
    using h t
    by (auto simp: reader_iteration_def VirtualSerialPort_read_def pty_read_def
        send_to_client_def write_to_socket_def update_raw_repl_state_from_response_def
        MP_BRIDGE_READ_BUFFER_SIZE_def split: list.split outcome.split)
  moreover have "pending_reboot_output (serial r) \<noteq> [] \<or> closed (serial r) \<longrightarrow>
           read_log (pty_process (serial (reader_iteration w r)))
             = read_log (pty_process (serial r))"
    using h
    by (auto simp: reader_iteration_def VirtualSerialPort_read_def
        send_to_client_def write_to_socket_def split: list.split)
  moreover have "pending_reboot_output (serial r) \<noteq> [] \<longrightarrow>
           pending_reboot_output (serial (reader_iteration w r))
             = drop 4096 (pending_reboot_output (serial r))"
    using h
    by (auto simp: reader_iteration_def VirtualSerialPort_read_def slice_from_def
        send_to_client_def write_to_socket_def MP_BRIDGE_READ_BUFFER_SIZE_def split: list.split)
  ultimately show ?thesis by blast
qed

theorem reader_iteration_read_request_witness:
  "\<not> has_process_exited (serial example_redirector)
   \<and> timeout (serial example_redirector) = timeout (main_virtual_serial example_pty Raises)
   \<and> pending_reboot_output (serial example_redirector) = []
   \<and> \<not> closed (serial example_redirector)
   \<and> read_log (pty_process (serial (reader_iteration False example_redirector))) = [(4096, 100)]"
proof -
  have h1: "\<not> has_process_exited (serial example_redirector)"
    by (simp add: has_process_exited_def is_alive_def example_redirector_def example_serial_def
        main_virtual_serial_def VirtualSerialPort_init_def example_pty_def)
  have h2: "timeout (serial example_redirector) = timeout (main_virtual_serial example_pty Raises)"
    by (simp add: example_redirector_def example_serial_def main_virtual_serial_def
        VirtualSerialPort_init_def)
  have h3: "pending_reboot_output (serial example_redirector) = []"
       "\<not> closed (serial example_redirector)"
       "read_log (pty_process (serial example_redirector)) = []"
    by (simp_all add: example_redirector_def example_serial_def main_virtual_serial_def
        VirtualSerialPort_init_def example_pty_def)
  show ?thesis
    using h1 h2 h3 reader_iteration_read_request [OF h1 h2, of False]
    by simp
qed

text \<open>
  The timeout of that read is the 100 ms \<^verbatim>\<open>main\<close> passes, not the 10 ms of
  \<^verbatim>\<open>MP_BRIDGE_READ_TIMEOUT\<close>.
\<close>

theorem reader_timeout_counterexample:
  "\<not> has_process_exited (serial example_redirector)
   \<and> snd (last (read_log (pty_process (serial (reader_iteration False example_redirector))))) = 100
   \<and> (100::nat) \<noteq> MP_BRIDGE_READ_TIMEOUT"
  by (simp add: example_redirector_def example_serial_def example_pty_def
      main_virtual_serial_def VirtualSerialPort_init_def reader_iteration_def
      handle_process_exit_def has_process_exited_def is_alive_def VirtualSerialPort_read_def
      pty_read_def MP_BRIDGE_READ_BUFFER_SIZE_def MP_BRIDGE_READ_TIMEOUT_def)

section \<open>When the drain loop stops\<close>

text \<open>
  C7, as the code has it. The drain loop always ends, after 50 reads of the PTY at most,
  also when a read raises. When no read raises it makes at least one read, it stops at the
  first read after which the exit test holds and not before, it goes to the 50th read only
  when the test held at none of the first 49, and it returns the concatenation of the
  chunks read. The exit test holds after a non-empty chunk when the accumulated bytes
  contain the prompt and, right-trimmed, end in \<^verbatim>\<open>>\<close>; after an empty chunk when more than
  \<open>max_empty_reads\<close> empty reads in a row (5 on POSIX, 10 on Windows) have been made and
  something has been accumulated, or more than twice that many.
\<close>

theorem drain_loop_stops_exactly:
  "max_attempts = 50 \<and> max_empty_reads False = 5 \<and> max_empty_reads True = 10
   \<and> drain_reads (max_empty_reads w) p \<le> max_attempts
   \<and> (Raises \<notin> set (reads p) \<longrightarrow>
        1 \<le> drain_reads (max_empty_reads w) p
      \<and> (\<forall>j. 1 \<le> j \<and> j < drain_reads (max_empty_reads w) p \<longrightarrow>
             \<not> stop_after (max_empty_reads w) (chunks j (reads p)))
      \<and> (drain_reads (max_empty_reads w) p < max_attempts \<longrightarrow>
             stop_after (max_empty_reads w) (chunks (drain_reads (max_empty_reads w) p) (reads p)))
      \<and> fst (drain max_attempts (max_empty_reads w) [] 0 p)
           = Returns (concat (chunks (drain_reads (max_empty_reads w) p) (reads p))))"
proof -
  let ?m = "max_empty_reads w"
  obtain k0 where k0: "k0 \<le> max_attempts"
    "read_log (snd (drain max_attempts ?m [] 0 p)) = read_log p @ replicate k0 drain_call"
    using drain_read_log[of max_attempts ?m "[]" 0 p] by blast
  have bound: "drain_reads ?m p \<le> max_attempts"
    using k0 by (simp add: drain_reads_def)
  have trace: "1 \<le> drain_reads ?m p
      \<and> (\<forall>j. 1 \<le> j \<and> j < drain_reads ?m p \<longrightarrow> \<not> stop_after ?m (chunks j (reads p)))
      \<and> (drain_reads ?m p < max_attempts \<longrightarrow>
             stop_after ?m (chunks (drain_reads ?m p) (reads p)))
      \<and> fst (drain max_attempts ?m [] 0 p)
           = Returns (concat (chunks (drain_reads ?m p) (reads p)))"
    if nr: "Raises \<notin> set (reads p)"
  proof -
    have e: "concat ([] :: bytes list) = []" "trailing_empties [] = 0"
      by (simp_all add: trailing_empties_def)
    obtain k where k:
      "read_log (snd (drain max_attempts ?m [] 0 p)) = read_log p @ replicate k drain_call"
      "0 < max_attempts \<longrightarrow> 1 \<le> k"
      "\<forall>j. 1 \<le> j \<and> j < k \<longrightarrow> \<not> stop_after ?m (chunks j (reads p))"
      "k < max_attempts \<longrightarrow> stop_after ?m (chunks k (reads p))"
      "fst (drain max_attempts ?m [] 0 p) = Returns (concat (chunks k (reads p)))"
      using drain_trace[OF nr, of max_attempts ?m "[]"] unfolding e by auto
    have "drain_reads ?m p = k"
      using k(1) by (simp add: drain_reads_def)
    then show ?thesis
      using k by (simp add: max_attempts_def)
  qed
  show ?thesis
    using bound trace by (simp add: max_attempts_def max_empty_reads_def)
qed

theorem drain_loop_stops_exactly_witness:
  "Raises \<notin> set (reads one_chunk_pty)
   \<and> drain_reads (max_empty_reads False) one_chunk_pty = 7
   \<and> \<not> stop_after (max_empty_reads False) (chunks 6 (reads one_chunk_pty))
   \<and> stop_after (max_empty_reads False) (chunks 7 (reads one_chunk_pty))
   \<and> fst (drain max_attempts (max_empty_reads False) [] 0 one_chunk_pty) = Returns ''x''"
proof -
  have nr: "Raises \<notin> set (reads one_chunk_pty)"
    by (simp add: one_chunk_pty_def)
  have c: "concat (chunks 7 (reads one_chunk_pty)) = ''x''"
    by code_simp
  note t = drain_loop_stops_exactly [of False one_chunk_pty, unfolded one_chunk_reads]
  have a: "\<forall>j. 1 \<le> j \<and> j < 7 \<longrightarrow>
             \<not> stop_after (max_empty_reads False) (chunks j (reads one_chunk_pty))"
    using t nr by blast
  have "\<not> stop_after (max_empty_reads False) (chunks 6 (reads one_chunk_pty))"
    using a by simp
  moreover have m: "(7::nat) < max_attempts"
    by (simp add: max_attempts_def)
  have "stop_after (max_empty_reads False) (chunks 7 (reads one_chunk_pty))"
    using t nr m by blast
  moreover have "fst (drain max_attempts (max_empty_reads False) [] 0 one_chunk_pty)
                   = Returns (concat (chunks 7 (reads one_chunk_pty)))"
    using t nr by blast
  then have "fst (drain max_attempts (max_empty_reads False) [] 0 one_chunk_pty) = Returns ''x''"
    unfolding c .
  ultimately show ?thesis
    using nr one_chunk_reads by blast
qed

text \<open>
  With the budget read as "5 empty reads on POSIX", the loop would stop after the fifth
  empty read. On a silent child it makes 11 reads, and after one byte of output 7: the
  counter must pass the budget, and pass twice the budget while nothing has been
  accumulated.
\<close>

theorem drain_budget_counterexample:
  "spec_stop_after (max_empty_reads False) (chunks 5 (reads example_pty))
   \<and> drain_reads (max_empty_reads False) example_pty = 11
   \<and> spec_stop_after (max_empty_reads False) (chunks 6 (reads one_chunk_pty))
   \<and> drain_reads (max_empty_reads False) one_chunk_pty = 7"
  by code_simp

section \<open>The banners of a soft reboot\<close>



end
